theory Spec2Isabelle
  imports Main
begin

section \<open>Rasters and the imaging primitives the editor calls\<close>

text \<open>
  The program under study is \<^verbatim>\<open>screenshot_editor.py\<close>. Its image pipeline consists of
  the two module-level functions \<^verbatim>\<open>round_image\<close> and \<^verbatim>\<open>add_background\<close>; they work on
  Pillow images. An image has an explicit size and per-pixel data. Every image the
  pipeline handles has mode RGBA (\<^verbatim>\<open>take_screenshot\<close> converts the capture, and
  \<^verbatim>\<open>add_background\<close> converts the background picture), the mask of \<^verbatim>\<open>round_image\<close>
  has mode L (one 8-bit channel).
\<close>

datatype pixel = Pixel (red: nat) (green: nat) (blue: nat) (alpha: nat)

record 'p image =
  width :: nat
  height :: nat
  pixels :: "nat \<Rightarrow> nat \<Rightarrow> 'p"

type_synonym raster = "pixel image"
type_synonym mask = "nat image"
type_synonym color = "int \<times> int \<times> int \<times> int"

text \<open>
  Pillow reports a bad size and mismatching operands as \<^verbatim>\<open>ValueError\<close>, a size that
  does not fit a C \<^verbatim>\<open>int\<close> as \<^verbatim>\<open>OverflowError\<close> and a failed allocation as
  \<^verbatim>\<open>MemoryError\<close>.
\<close>

datatype error = ValueError | OverflowError | MemoryError

text \<open>
  A colour tuple is stored with every channel clipped to 0..255. The colours of the editor
  are 8-bit ones (\<open>rgba8\<close>); a channel value that does not fit a C \<^verbatim>\<open>int\<close> is outside the
  model.
\<close>

definition clip8 :: "int \<Rightarrow> nat" where
  "clip8 v = (if v \<le> 0 then 0 else if v < 256 then nat v else 255)"

definition ink :: "color \<Rightarrow> pixel" where
  "ink c = (case c of (r, g, b, a) \<Rightarrow> Pixel (clip8 r) (clip8 g) (clip8 b) (clip8 a))"

definition rgba8 :: "color \<Rightarrow> bool" where
  "rgba8 c = (case c of (r, g, b, a) \<Rightarrow>
     0 \<le> r \<and> r \<le> 255 \<and> 0 \<le> g \<and> g \<le> 255 \<and> 0 \<le> b \<and> b \<le> 255 \<and> 0 \<le> a \<and> a \<le> 255)"

text \<open>
  \<^verbatim>\<open>Image.new(mode, (w, h), v)\<close> where \<open>(w, h)\<close> is the size of an image that exists (the
  mask of \<^verbatim>\<open>round_image\<close>, the shadow raster): a negative width or height is refused with
  \<^verbatim>\<open>ValueError\<close>, a zero one is accepted; every pixel is \<open>v\<close>. An image of the size of
  an existing one is taken to be allocatable.
\<close>

definition image_new :: "int \<Rightarrow> int \<Rightarrow> 'p \<Rightarrow> error + 'p image" where
  "image_new w h v =
     (if w < 0 \<or> h < 0 then Inl ValueError
      else Inr \<lparr>width = nat w, height = nat h, pixels = (\<lambda>x y. v)\<rparr>)"

text \<open>
  The numerical parts of Pillow are parameters of the model: which pixels
  \<^verbatim>\<open>ImageDraw.rounded_rectangle\<close> covers for a box \<open>(x0, y0, x1, y1)\<close> and a radius, what
  \<^verbatim>\<open>ImageFilter.GaussianBlur(radius=10)\<close> makes of a raster, and the pixel that
  \<^verbatim>\<open>resize(..., Image.LANCZOS).convert("RGBA")\<close> computes at \<open>(x, y)\<close> of a target of a
  given size. So is the machine: whether it has the memory for a new image of a given
  width and height. Every theorem below holds for all values of these parameters.
\<close>

record pillow =
  covered :: "int \<times> int \<times> int \<times> int \<Rightarrow> int \<Rightarrow> nat \<Rightarrow> nat \<Rightarrow> bool"
  gaussian_blur :: "raster \<Rightarrow> raster"
  lanczos :: "raster \<Rightarrow> nat \<Rightarrow> nat \<Rightarrow> nat \<Rightarrow> nat \<Rightarrow> pixel"
  enough_memory :: "nat \<Rightarrow> nat \<Rightarrow> bool"

text \<open>
  A canvas whose size is computed from the padding can be created when both sides fit a
  C \<^verbatim>\<open>int\<close> and the memory can be had. An image of up to 4096 by 4096 pixels (64 MiB in
  mode RGBA) is taken to fit on every machine; beyond that the parameter decides.
\<close>

definition fits :: "pillow \<Rightarrow> int \<Rightarrow> int \<Rightarrow> bool" where
  "fits L w h =
     (w \<le> 2147483647 \<and> h \<le> 2147483647
      \<and> (w \<le> 4096 \<and> h \<le> 4096 \<or> enough_memory L (nat w) (nat h)))"

text \<open>
  \<^verbatim>\<open>Image.new(mode, (w, h), v)\<close> for a computed size: the sign of the sides is checked
  first (\<^verbatim>\<open>ValueError\<close>), then the sides are converted to C \<^verbatim>\<open>int\<close>s
  (\<^verbatim>\<open>OverflowError\<close>), then the image is allocated (\<^verbatim>\<open>MemoryError\<close>).
\<close>

definition new_canvas :: "pillow \<Rightarrow> int \<Rightarrow> int \<Rightarrow> 'p \<Rightarrow> error + 'p image" where
  "new_canvas L w h v =
     (if w < 0 \<or> h < 0 then Inl ValueError
      else if 2147483647 < w \<or> 2147483647 < h then Inl OverflowError
      else if fits L w h then image_new w h v
      else Inl MemoryError)"

text \<open>
  \<^verbatim>\<open>d.rounded_rectangle(box, radius, fill=v)\<close> paints the covered pixels of the mask
  with \<open>v\<close> and leaves the others as they are (the drawing is not anti-aliased).
\<close>

definition rounded_rectangle ::
  "pillow \<Rightarrow> mask \<Rightarrow> int \<times> int \<times> int \<times> int \<Rightarrow> int \<Rightarrow> nat \<Rightarrow> mask" where
  "rounded_rectangle L m box radius v =
     m\<lparr>pixels := (\<lambda>x y. if covered L box radius x y then v else pixels m x y)\<rparr>"

text \<open>
  \<^verbatim>\<open>im.putalpha(m)\<close> with an L image \<open>m\<close>: the alpha band of \<open>im\<close> is replaced by \<open>m\<close>,
  the colour bands stay; operands of different sizes are a \<^verbatim>\<open>ValueError\<close>.
\<close>

definition putalpha :: "raster \<Rightarrow> mask \<Rightarrow> error + raster" where
  "putalpha im m =
     (if width m = width im \<and> height m = height im
      then Inr (im\<lparr>pixels := (\<lambda>x y. case pixels im x y of
                  Pixel r g b a \<Rightarrow> Pixel r g b (pixels m x y))\<rparr>)
      else Inl ValueError)"

section \<open>Corner masking: \<^verbatim>\<open>round_image\<close>\<close>

text \<open>
  \<^verbatim>\<open>
  def round_image(pil_image, corner_radius=20):
      if corner_radius <= 0:
          return pil_image
      w, h = pil_image.size
      mask = Image.new('L', (w, h), 0)
      d = ImageDraw.Draw(mask)
      d.rounded_rectangle([0, 0, w, h], corner_radius, fill=255)
      out = pil_image.copy()
      out.putalpha(mask)
      return out
  \<close>
\<close>

definition round_image :: "pillow \<Rightarrow> raster \<Rightarrow> int \<Rightarrow> error + raster" where
  "round_image L pil_image corner_radius =
     (if corner_radius \<le> 0 then Inr pil_image
      else
        let w = int (width pil_image); h = int (height pil_image) in
        case image_new w h (0::nat) of
          Inl e \<Rightarrow> Inl e
        | Inr mask0 \<Rightarrow>
            let mask1 = rounded_rectangle L mask0 (0, 0, w, h) corner_radius 255;
                out = pil_image
            in putalpha out mask1)"

text \<open>The mask that \<^verbatim>\<open>round_image\<close> draws for a raster of a given size.\<close>

definition corner_mask :: "pillow \<Rightarrow> nat \<Rightarrow> nat \<Rightarrow> int \<Rightarrow> nat \<Rightarrow> nat \<Rightarrow> nat" where
  "corner_mask L w h corner_radius x y =
     (if covered L (0, 0, int w, int h) corner_radius x y then 255 else 0)"

section \<open>Pasting, compositing and resizing\<close>

text \<open>
  \<^verbatim>\<open>dst.paste(src, (ox, oy))\<close> copies \<open>src\<close> into \<open>dst\<close> with its top-left pixel at
  \<open>(ox, oy)\<close>; what falls outside \<open>dst\<close> is clipped, the size of \<open>dst\<close> stays.
\<close>

definition paste :: "raster \<Rightarrow> raster \<Rightarrow> int \<times> int \<Rightarrow> raster" where
  "paste dst src box =
     dst\<lparr>pixels := (\<lambda>x y.
        let sx = int x - fst box; sy = int y - snd box in
        if 0 \<le> sx \<and> sx < int (width src) \<and> 0 \<le> sy \<and> sy < int (height src)
        then pixels src (nat sx) (nat sy)
        else pixels dst x y)\<rparr>"

text \<open>
  With a mask, \<^verbatim>\<open>dst.paste(src, (ox, oy), msk)\<close> mixes every band of the two pixels by the
  alpha of the mask pixel (255 copies the source, 0 keeps the destination), with Pillow's
  rounded division by 255. The mask must have the size of the source.
\<close>

definition blend8 :: "nat \<Rightarrow> nat \<Rightarrow> nat \<Rightarrow> nat" where
  "blend8 m v_dst v_src =
     (let tmp = v_dst * (255 - m) + v_src * m + 128 in (tmp div 256 + tmp) div 256)"

definition blend_pixel :: "nat \<Rightarrow> pixel \<Rightarrow> pixel \<Rightarrow> pixel" where
  "blend_pixel m d s =
     Pixel (blend8 m (red d) (red s)) (blend8 m (green d) (green s))
           (blend8 m (blue d) (blue s)) (blend8 m (alpha d) (alpha s))"

definition paste_mask :: "raster \<Rightarrow> raster \<Rightarrow> int \<times> int \<Rightarrow> raster \<Rightarrow> error + raster" where
  "paste_mask dst src box msk =
     (if width msk = width src \<and> height msk = height src
      then Inr (dst\<lparr>pixels := (\<lambda>x y.
        let sx = int x - fst box; sy = int y - snd box in
        if 0 \<le> sx \<and> sx < int (width src) \<and> 0 \<le> sy \<and> sy < int (height src)
        then blend_pixel (alpha (pixels msk (nat sx) (nat sy)))
               (pixels dst x y) (pixels src (nat sx) (nat sy))
        else pixels dst x y)\<rparr>)
      else Inl ValueError)"

text \<open>
  \<^verbatim>\<open>Image.alpha_composite(im1, im2)\<close> puts \<open>im2\<close> over \<open>im1\<close>. Both operands must have
  the same size, otherwise Pillow raises \<^verbatim>\<open>ValueError: images do not match\<close>. The pixel
  operation is Pillow's integer one (7 extra bits of precision, rounded divisions).
\<close>

definition over :: "pixel \<Rightarrow> pixel \<Rightarrow> pixel" where
  "over dst src =
     (if alpha src = 0 then dst
      else
        let blend = alpha dst * (255 - alpha src);
            outa255 = alpha src * 255 + blend;
            coef1 = alpha src * 255 * 255 * 128 div outa255;
            coef2 = 255 * 128 - coef1;
            band = (\<lambda>s d. let t = s * coef1 + d * coef2 + 128 * 128
                           in ((t div 256 + t) div 256) div 128);
            ta = outa255 + 128
        in Pixel (band (red src) (red dst)) (band (green src) (green dst))
                 (band (blue src) (blue dst)) ((ta div 256 + ta) div 256))"

definition alpha_composite :: "raster \<Rightarrow> raster \<Rightarrow> error + raster" where
  "alpha_composite im1 im2 =
     (if width im1 = width im2 \<and> height im1 = height im2
      then Inr \<lparr>width = width im1, height = height im1,
                pixels = (\<lambda>x y. over (pixels im1 x y) (pixels im2 x y))\<rparr>
      else Inl ValueError)"

text \<open>
  \<^verbatim>\<open>im.resize((w, h), Image.LANCZOS).convert("RGBA")\<close>: a request for the size the image
  already has returns a copy; otherwise a side that does not fit a C \<^verbatim>\<open>int\<close> is an
  \<^verbatim>\<open>OverflowError\<close>, a width or height below 1 a \<^verbatim>\<open>ValueError\<close>, a failed allocation a
  \<^verbatim>\<open>MemoryError\<close>, and the pixels come from the resampling filter. The background
  picture is represented by its RGBA pixels.
\<close>

definition resize_rgba :: "pillow \<Rightarrow> raster \<Rightarrow> int \<Rightarrow> int \<Rightarrow> error + raster" where
  "resize_rgba L im w h =
     (if w = int (width im) \<and> h = int (height im) then Inr im
      else if w < - 2147483648 \<or> 2147483647 < w \<or> h < - 2147483648 \<or> 2147483647 < h
        then Inl OverflowError
      else if w < 1 \<or> h < 1 then Inl ValueError
      else if fits L w h
        then Inr \<lparr>width = nat w, height = nat h, pixels = lanczos L im (nat w) (nat h)\<rparr>
      else Inl MemoryError)"

section \<open>Background and shadow: \<^verbatim>\<open>add_background\<close>\<close>

text \<open>
  \<^verbatim>\<open>
  def add_background(fg_image, bg_mode="color", color=(255, 255, 255, 255),
                     bg_image=None, padding=20, shadow_enabled=True,
                     shadow_opacity=30, shadow_offset=(8, 8)):
      shadow_layer = None
      if shadow_enabled:
          shadow = Image.new("RGBA", fg_image.size, (0, 0, 0, shadow_opacity))
          shadow_blur = shadow.filter(ImageFilter.GaussianBlur(radius=10))
          shadow_w = fg_image.width + 2 * padding + shadow_offset[0]
          shadow_h = fg_image.height + 2 * padding + shadow_offset[1]
          shadow_canvas = Image.new("RGBA", (shadow_w, shadow_h), (0, 0, 0, 0))
          shadow_canvas.paste(shadow_blur, (padding + shadow_offset[0],
                                          padding + shadow_offset[1]))
      w_fg, h_fg = fg_image.size
      new_w = w_fg + 2 * padding
      new_h = h_fg + 2 * padding
      if bg_mode == "image" and bg_image:
          back = bg_image.resize((new_w, new_h), Image.LANCZOS).convert("RGBA")
      else:
          back = Image.new("RGBA", (new_w, new_h), color)
      if shadow_enabled:
          back = Image.alpha_composite(
              Image.alpha_composite(back, shadow_canvas),
              add_background(fg_image, "color", (0, 0, 0, 0), padding=padding)
          )
      back.paste(fg_image, (padding, padding), fg_image)
      return back
  \<close>
  The model keeps the order of the calls: the shadow block, the background canvas, the two
  compositions (Python evaluates the inner \<^verbatim>\<open>alpha_composite\<close> before the recursive call),
  the final paste; the two tests of \<^verbatim>\<open>shadow_enabled\<close> are one branch. The recursive call
  passes four arguments and takes the defaults
  \<^verbatim>\<open>bg_image=None, shadow_enabled=True, shadow_opacity=30, shadow_offset=(8, 8)\<close>.
  The variable \<^verbatim>\<open>shadow_layer\<close> is never read.
\<close>

text \<open>The first statement of the shadow block: the unblurred shadow raster.\<close>

definition shadow_fill :: "raster \<Rightarrow> int \<Rightarrow> error + raster" where
  "shadow_fill fg_image shadow_opacity =
     image_new (int (width fg_image)) (int (height fg_image)) (ink (0, 0, 0, shadow_opacity))"

definition shadow_block :: "pillow \<Rightarrow> raster \<Rightarrow> int \<Rightarrow> int \<Rightarrow> int \<times> int \<Rightarrow> error + raster" where
  "shadow_block L fg_image padding shadow_opacity shadow_offset =
     (case shadow_fill fg_image shadow_opacity of
        Inl e \<Rightarrow> Inl e
      | Inr shadow \<Rightarrow>
          let shadow_blur = gaussian_blur L shadow;
              shadow_w = int (width fg_image) + 2 * padding + fst shadow_offset;
              shadow_h = int (height fg_image) + 2 * padding + snd shadow_offset
          in case new_canvas L shadow_w shadow_h (ink (0, 0, 0, 0)) of
               Inl e \<Rightarrow> Inl e
             | Inr shadow_canvas \<Rightarrow>
                 Inr (paste shadow_canvas shadow_blur
                        (padding + fst shadow_offset, padding + snd shadow_offset)))"

definition background_canvas ::
  "pillow \<Rightarrow> raster \<Rightarrow> string \<Rightarrow> color \<Rightarrow> raster option \<Rightarrow> int \<Rightarrow> error + raster" where
  "background_canvas L fg_image bg_mode color bg_image padding =
     (let new_w = int (width fg_image) + 2 * padding;
          new_h = int (height fg_image) + 2 * padding
      in if bg_mode = ''image'' \<and> bg_image \<noteq> None
         then resize_rgba L (the bg_image) new_w new_h
         else new_canvas L new_w new_h (ink color))"

lemma shadow_block_size:
  assumes "shadow_block L fg p so off = Inr sc"
  shows "int (width sc) = int (width fg) + 2 * p + fst off"
    and "int (height sc) = int (height fg) + 2 * p + snd off"
  using assms
  by (auto simp: shadow_block_def shadow_fill_def new_canvas_def image_new_def paste_def
      Let_def split: if_splits sum.splits)

lemma background_canvas_size:
  assumes "background_canvas L fg m c b p = Inr back"
  shows "int (width back) = int (width fg) + 2 * p"
    and "int (height back) = int (height fg) + 2 * p"
  using assms
  by (auto simp: background_canvas_def resize_rgba_def new_canvas_def image_new_def Let_def
      split: if_splits)

lemma alpha_composite_size:
  assumes "alpha_composite im1 im2 = Inr r"
  shows "width im2 = width im1" and "height im2 = height im1"
    and "width r = width im1" and "height r = height im1"
  using assms by (auto simp: alpha_composite_def split: if_splits)

function add_background ::
  "pillow \<Rightarrow> raster \<Rightarrow> string \<Rightarrow> color \<Rightarrow> raster option \<Rightarrow> int \<Rightarrow> bool \<Rightarrow> int \<Rightarrow> int \<times> int
     \<Rightarrow> error + raster" where
  "add_background L fg_image bg_mode color bg_image padding shadow_enabled shadow_opacity
       shadow_offset =
     (if shadow_enabled then
        (case shadow_block L fg_image padding shadow_opacity shadow_offset of
           Inl e \<Rightarrow> Inl e
         | Inr shadow_canvas \<Rightarrow>
        (case background_canvas L fg_image bg_mode color bg_image padding of
           Inl e \<Rightarrow> Inl e
         | Inr back \<Rightarrow>
        (case alpha_composite back shadow_canvas of
           Inl e \<Rightarrow> Inl e
         | Inr lower \<Rightarrow>
        (case add_background L fg_image ''color'' (0, 0, 0, 0) None padding True 30 (8, 8) of
           Inl e \<Rightarrow> Inl e
         | Inr upper \<Rightarrow>
        (case alpha_composite lower upper of
           Inl e \<Rightarrow> Inl e
         | Inr back' \<Rightarrow> paste_mask back' fg_image (padding, padding) fg_image)))))
      else
        (case background_canvas L fg_image bg_mode color bg_image padding of
           Inl e \<Rightarrow> Inl e
         | Inr back \<Rightarrow> paste_mask back fg_image (padding, padding) fg_image))"
  by pat_completeness auto

text \<open>
  The recursion ends: the recursive call is reached only after the inner composition has
  succeeded, which needs a shadow canvas of the size of the background canvas, that is a
  shadow offset of \<open>(0, 0)\<close>; the call itself has the offset \<open>(8, 8)\<close>.
\<close>

termination
proof (relation "measure (\<lambda>(L, fg, m, c, b, p, se, so, off). if off = (0, 0) then 1 else 0)")
  show "wf (measure (\<lambda>(L, fg, m, c, b, p, se, so, off). if off = (0, 0) then 1 else (0::nat)))"
    by simp
next
  fix L :: pillow and fg_image :: raster and bg_mode :: string and color :: color
    and bg_image :: "raster option" and padding :: int and shadow_enabled :: bool
    and shadow_opacity :: int and shadow_offset :: "int \<times> int"
    and shadow_canvas canvas lower :: raster
  assume sc: "shadow_block L fg_image padding shadow_opacity shadow_offset = Inr shadow_canvas"
    and bk: "background_canvas L fg_image bg_mode color bg_image padding = Inr canvas"
    and ac: "alpha_composite canvas shadow_canvas = Inr lower"
  have "int (width shadow_canvas) = int (width canvas)"
    and "int (height shadow_canvas) = int (height canvas)"
    using alpha_composite_size [OF ac] by simp_all
  then have "fst shadow_offset = 0" and "snd shadow_offset = 0"
    using shadow_block_size [OF sc] background_canvas_size [OF bk] by simp_all
  then have "shadow_offset = (0, 0)"
    by (simp add: prod_eq_iff)
  then show "((L, fg_image, ''color'', (0, 0, 0, 0), None, padding, True, 30, 8, 8),
              L, fg_image, bg_mode, color, bg_image, padding, shadow_enabled,
              shadow_opacity, shadow_offset)
             \<in> measure (\<lambda>(L, fg, m, c, b, p, se, so, off). if off = (0, 0) then 1 else 0)"
    by simp
qed

declare add_background.simps [simp del]

section \<open>Object identity: \<^verbatim>\<open>round_image\<close> on a store\<close>

text \<open>
  Pillow images are objects. To tell the image a function was given from a new one,
  \<^verbatim>\<open>round_image\<close> is also read on a store: a list of image objects, an object's address
  being its position. \<^verbatim>\<open>Image.new\<close> and \<^verbatim>\<open>copy\<close> allocate at the end of the store, the
  drawing and \<^verbatim>\<open>putalpha\<close> update the object in place. The result is \<open>None\<close> only when
  the address given is not that of an RGBA image of the store, which no call of the
  program does.
\<close>

datatype obj = Raster_obj raster | Mask_obj mask

type_synonym heap = "obj list"

definition raster_at :: "heap \<Rightarrow> nat \<Rightarrow> raster option" where
  "raster_at st a =
     (if a < length st then (case st ! a of Raster_obj im \<Rightarrow> Some im | Mask_obj m \<Rightarrow> None)
      else None)"

definition round_image_ref ::
  "pillow \<Rightarrow> heap \<Rightarrow> nat \<Rightarrow> int \<Rightarrow> ((error + nat) \<times> heap) option" where
  "round_image_ref L st pil_image corner_radius =
     (if corner_radius \<le> 0 then Some (Inr pil_image, st)
      else
        case raster_at st pil_image of
          None \<Rightarrow> None
        | Some im \<Rightarrow>
            let w = int (width im); h = int (height im) in
            (case image_new w h (0::nat) of
               Inl e \<Rightarrow> Some (Inl e, st)
             | Inr mask0 \<Rightarrow>
                 let mask = length st;
                     st1 = st @ [Mask_obj mask0];
                     mask1 = rounded_rectangle L mask0 (0, 0, w, h) corner_radius 255;
                     st2 = st1[mask := Mask_obj mask1];
                     out = length st2;
                     st3 = st2 @ [Raster_obj im]
                 in (case putalpha im mask1 of
                       Inl e \<Rightarrow> Some (Inl e, st3)
                     | Inr r \<Rightarrow> Some (Inr out, st3[out := Raster_obj r]))))"

section \<open>The editor: \<^verbatim>\<open>ScreenshotEditor\<close>\<close>

text \<open>
  The attributes that \<^verbatim>\<open>_setup_state\<close> creates and the rendering reads or writes. The
  first seven are the rendering parameters; a history entry pairs them with a capture.
\<close>

record render_config =
  corner_radius :: int
  padding :: int
  bg_mode :: string
  bg_color :: color
  bg_image :: "raster option"
  shadow_enabled :: bool
  shadow_opacity :: int

type_synonym snapshot = "raster option \<times> render_config"

record editor = render_config +
  original_image :: "raster option"
  final_image :: "raster option"
  undo_stack :: "snapshot list"
  redo_stack :: "snapshot list"

definition setup_state :: editor where
  "setup_state =
     \<lparr>corner_radius = 30, padding = 50, bg_mode = ''color'',
      bg_color = (255, 255, 255, 255), bg_image = None,
      shadow_enabled = True, shadow_opacity = 30,
      original_image = None, final_image = None, undo_stack = [], redo_stack = []\<rparr>"

text \<open>How a method ends: it returns, or an exception leaves it.\<close>

datatype outcome = Returned | Raised error | CaptureFailed

text \<open>
  The first two calls of \<^verbatim>\<open>apply_effects\<close>, \<^verbatim>\<open>round_image\<close> and then \<^verbatim>\<open>add_background\<close>
  (which is not given a shadow offset and takes the default \<open>(8, 8)\<close>), and all three.
\<close>

definition compose :: "pillow \<Rightarrow> 'a render_config_scheme \<Rightarrow> raster \<Rightarrow> error + raster" where
  "compose L cfg original =
     (case round_image L original (corner_radius cfg) of
        Inl e \<Rightarrow> Inl e
      | Inr sc_rounded \<Rightarrow>
          add_background L sc_rounded (bg_mode cfg) (bg_color cfg) (bg_image cfg) (padding cfg)
            (shadow_enabled cfg) (shadow_opacity cfg) (8, 8))"

definition render :: "pillow \<Rightarrow> 'a render_config_scheme \<Rightarrow> raster \<Rightarrow> error + raster" where
  "render L cfg original =
     (case compose L cfg original of
        Inl e \<Rightarrow> Inl e
      | Inr with_bg \<Rightarrow> round_image L with_bg (corner_radius cfg))"

text \<open>
  \<^verbatim>\<open>
  def apply_effects(self):
      if not self.original_image:
          return
      sc_rounded = round_image(self.original_image, self.corner_radius)
      with_bg = add_background(sc_rounded, self.bg_mode, self.bg_color, self.bg_image,
          self.padding, shadow_enabled=self.shadow_enabled,
          shadow_opacity=self.shadow_opacity)
      final = round_image(with_bg, self.corner_radius)
      self.final_image = final
  \<close>
  An exception of a stage leaves the method before the assignment. The call that shows
  the result on the canvas follows the assignment and is not modelled.
\<close>

definition apply_effects :: "pillow \<Rightarrow> editor \<Rightarrow> outcome \<times> editor" where
  "apply_effects L s =
     (case original_image s of
        None \<Rightarrow> (Returned, s)
      | Some original \<Rightarrow>
          (case render L s original of
             Inl e \<Rightarrow> (Raised e, s)
           | Inr final \<Rightarrow> (Returned, s\<lparr>final_image := Some final\<rparr>)))"

text \<open>
  Modelled from the spec: \<^verbatim>\<open>push_undo\<close> is called by \<^verbatim>\<open>take_screenshot\<close> but its body is
  not in the source file. The specification says that it carries the pre-mutation
  capture and render configuration onto the undo history and also clears the redo stack.
\<close>

definition push_undo :: "editor \<Rightarrow> editor" where
  "push_undo s =
     s\<lparr>undo_stack := (original_image s, render_config.truncate s) # undo_stack s,
       redo_stack := []\<rparr>"

text \<open>
  \<^verbatim>\<open>
  def take_screenshot(self):
      if self.original_image:
          self.push_undo()
          self.redo_stack.clear()
      ts = datetime.datetime.now().strftime("%Y%m%d_%H%M%S")
      fname = f"screenshot_{ts}.png"
      capture_screenshot(fname)
      self.original_image = Image.open(fname).convert("RGBA")
      self.apply_effects()
  \<close>
  The method \<^verbatim>\<open>push_undo\<close> is a parameter of the model. The screen capture is an input:
  \<open>Some img\<close> is the raster that \<^verbatim>\<open>Image.open(fname).convert("RGBA")\<close> yields, \<open>None\<close>
  stands for a capture or a decoding that raises.
\<close>

definition take_screenshot ::
  "pillow \<Rightarrow> (editor \<Rightarrow> editor) \<Rightarrow> editor \<Rightarrow> raster option \<Rightarrow> outcome \<times> editor" where
  "take_screenshot L push_undo_method s capture =
     (let s1 = (if original_image s \<noteq> None
                then (push_undo_method s)\<lparr>redo_stack := []\<rparr>
                else s)
      in case capture of
           None \<Rightarrow> (CaptureFailed, s1)
         | Some img \<Rightarrow> apply_effects L (s1\<lparr>original_image := Some img\<rparr>))"

section \<open>Concrete inputs\<close>

text \<open>A raster filled with one pixel value.\<close>

definition solid :: "nat \<Rightarrow> nat \<Rightarrow> pixel \<Rightarrow> raster" where
  "solid w h p = \<lparr>width = w, height = h, pixels = (\<lambda>x y. p)\<rparr>"

text \<open>
  Values of the library parameters for evaluating the model on concrete inputs: the
  geometric rounded rectangle (a pixel of the box is covered when it is within the
  radius of the nearest corner centre), a blur that leaves a raster as it is (the
  program only blurs uniformly filled rasters), nearest-neighbour sampling, and a
  machine with no memory beyond what every machine has.
\<close>

definition geometric_covered :: "int \<times> int \<times> int \<times> int \<Rightarrow> int \<Rightarrow> nat \<Rightarrow> nat \<Rightarrow> bool" where
  "geometric_covered box radius x y =
     (case box of (x0, y0, x1, y1) \<Rightarrow>
        let px = int x; py = int y;
            r = min radius (min ((x1 - x0) div 2) ((y1 - y0) div 2));
            cx = max (x0 + r) (min (x1 - r) px);
            cy = max (y0 + r) (min (y1 - r) py)
        in x0 \<le> px \<and> px \<le> x1 \<and> y0 \<le> py \<and> py \<le> y1
           \<and> (px - cx) * (px - cx) + (py - cy) * (py - cy) \<le> r * r)"

definition nearest :: "raster \<Rightarrow> nat \<Rightarrow> nat \<Rightarrow> nat \<Rightarrow> nat \<Rightarrow> pixel" where
  "nearest im w h x y = pixels im (x * width im div w) (y * height im div h)"

definition sample_pillow :: pillow where
  "sample_pillow =
     \<lparr>covered = geometric_covered, gaussian_blur = (\<lambda>im. im), lanczos = nearest,
      enough_memory = (\<lambda>w h. False)\<rparr>"

definition editor_with_capture :: editor where
  "editor_with_capture =
     setup_state\<lparr>original_image := Some (solid 2 2 (Pixel 9 9 9 255)),
       redo_stack := [(Some (solid 1 1 (Pixel 0 0 0 255)), render_config.truncate setup_state)]\<rparr>"

section \<open>Auxiliary facts\<close>

lemma solid_simps [simp]:
  "width (solid w h p) = w" "height (solid w h p) = h" "pixels (solid w h p) x y = p"
  by (simp_all add: solid_def)

lemma round_image_positive:
  "0 < radius \<Longrightarrow>
   round_image L im radius =
     Inr (im\<lparr>pixels := (\<lambda>x y. case pixels im x y of
            Pixel r g b a \<Rightarrow> Pixel r g b (corner_mask L (width im) (height im) radius x y))\<rparr>)"
  by (auto simp: round_image_def image_new_def rounded_rectangle_def putalpha_def
      corner_mask_def Let_def fun_eq_iff split: pixel.split)

lemma round_image_returns: "\<exists>out. round_image L im r = Inr out"
proof (cases "0 < r")
  case True
  then show ?thesis by (simp add: round_image_positive)
next
  case False
  then show ?thesis by (simp add: round_image_def)
qed

lemma alpha_replaced: "alpha (case p of Pixel r g b a \<Rightarrow> Pixel r g b m) = m"
  by (cases p) simp

text \<open>
  For positive radii the output of \<^verbatim>\<open>round_image\<close> is determined by the mask that the
  library draws: two radii give the same output exactly when they give the same mask.
  The function passes the radius on as it is.
\<close>

lemma round_image_same_iff_mask:
  assumes "0 < r1" and "0 < r2"
  shows "round_image L im r1 = round_image L im r2 \<longleftrightarrow>
         (\<forall>x y. corner_mask L (width im) (height im) r1 x y
                = corner_mask L (width im) (height im) r2 x y)"
proof
  assume "round_image L im r1 = round_image L im r2"
  then have "pixels (im\<lparr>pixels := (\<lambda>x y. case pixels im x y of
                Pixel r g b a \<Rightarrow> Pixel r g b (corner_mask L (width im) (height im) r1 x y))\<rparr>)
           = pixels (im\<lparr>pixels := (\<lambda>x y. case pixels im x y of
                Pixel r g b a \<Rightarrow> Pixel r g b (corner_mask L (width im) (height im) r2 x y))\<rparr>)"
    by (simp only: round_image_positive [OF assms(1)] round_image_positive [OF assms(2)]
        sum.inject)
  then have eq: "(case pixels im x y of
                Pixel r g b a \<Rightarrow> Pixel r g b (corner_mask L (width im) (height im) r1 x y))
           = (case pixels im x y of
                Pixel r g b a \<Rightarrow> Pixel r g b (corner_mask L (width im) (height im) r2 x y))"
    for x y
    by (simp add: fun_eq_iff)
  have "corner_mask L (width im) (height im) r1 x y
      = corner_mask L (width im) (height im) r2 x y" for x y
    using arg_cong [OF eq [of x y], of alpha] by (simp add: alpha_replaced)
  then show "\<forall>x y. corner_mask L (width im) (height im) r1 x y
                 = corner_mask L (width im) (height im) r2 x y"
    by simp
next
  assume "\<forall>x y. corner_mask L (width im) (height im) r1 x y
              = corner_mask L (width im) (height im) r2 x y"
  then show "round_image L im r1 = round_image L im r2"
    by (simp add: round_image_positive [OF assms(1)] round_image_positive [OF assms(2)]
        cong: pixel.case_cong)
qed

lemma background_canvas_returns:
  assumes "0 \<le> p"
    and "fits L (int (width fg) + 2 * p) (int (height fg) + 2 * p)"
    and "m = ''image'' \<and> b \<noteq> None \<longrightarrow> 0 < width fg \<and> 0 < height fg"
  shows "\<exists>canvas. background_canvas L fg m c b p = Inr canvas"
proof (cases "m = ''image'' \<and> b \<noteq> None")
  case True
  with assms have "1 \<le> int (width fg) + 2 * p" and "1 \<le> int (height fg) + 2 * p"
    by auto
  moreover from assms(2) have "int (width fg) + 2 * p \<le> 2147483647"
    and "int (height fg) + 2 * p \<le> 2147483647"
    by (simp_all add: fits_def)
  ultimately show ?thesis
    using True assms(2) by (simp add: background_canvas_def resize_rgba_def Let_def)
next
  case False
  moreover from assms(2) have "int (width fg) + 2 * p \<le> 2147483647"
    and "int (height fg) + 2 * p \<le> 2147483647"
    by (simp_all add: fits_def)
  ultimately show ?thesis
    using assms(1,2)
    by (auto simp: background_canvas_def new_canvas_def image_new_def Let_def)
qed

lemma add_background_no_shadow:
  "add_background L fg m c b p False so off =
     (case background_canvas L fg m c b p of
        Inl e \<Rightarrow> Inl e
      | Inr canvas \<Rightarrow> paste_mask canvas fg (p, p) fg)"
  by (subst add_background.simps) simp

text \<open>
  With a shadow, the background canvas has the size of the foreground plus the padding,
  the shadow canvas is larger by the shadow offset: composing the two fails unless the
  offset is \<open>(0, 0)\<close>.
\<close>

lemma composite_offset_mismatch:
  assumes sc: "shadow_block L fg p so off = Inr sc"
    and bk: "background_canvas L fg m c b p = Inr canvas"
    and off: "off \<noteq> (0, 0)"
  shows "alpha_composite canvas sc = Inl ValueError"
proof (cases "alpha_composite canvas sc")
  case (Inl e)
  then show ?thesis by (simp add: alpha_composite_def split: if_splits)
next
  case (Inr lower)
  have "int (width sc) = int (width canvas)" and "int (height sc) = int (height canvas)"
    using alpha_composite_size [OF Inr] by simp_all
  then have "fst off = 0" and "snd off = 0"
    using shadow_block_size [OF sc] background_canvas_size [OF bk] by simp_all
  with off show ?thesis by (simp add: prod_eq_iff)
qed

text \<open>
  When both canvases can be created and the offset is not \<open>(0, 0)\<close>, the call raises
  \<^verbatim>\<open>ValueError\<close>.
\<close>

lemma add_background_shadow_ValueError:
  assumes sc: "shadow_block L fg p so off = Inr sc"
    and bk: "background_canvas L fg m c b p = Inr canvas"
    and off: "off \<noteq> (0, 0)"
  shows "add_background L fg m c b p True so off = Inl ValueError"
  using sc bk composite_offset_mismatch [OF sc bk off]
  by (subst add_background.simps) simp

lemma add_background_shadow_offset:
  assumes "off \<noteq> (0, 0)"
  shows "\<exists>e. add_background L fg m c b p True so off = Inl e"
proof (cases "shadow_block L fg p so off")
  case (Inl e)
  then show ?thesis
    by (subst add_background.simps) simp
next
  case sc: (Inr sc)
  show ?thesis
  proof (cases "background_canvas L fg m c b p")
    case (Inl e)
    with sc show ?thesis
      by (subst add_background.simps) simp
  next
    case (Inr canvas)
    then show ?thesis
      using add_background_shadow_ValueError [OF sc Inr assms] by simp
  qed
qed

text \<open>
  The recursive call always has the offset \<open>(8, 8)\<close>, so it fails, and with it every call
  that reaches it: with \<^verbatim>\<open>shadow_enabled=True\<close> the function raises on every input.
\<close>

lemma add_background_shadow_raises:
  "\<exists>e. add_background L fg m c b p True so off = Inl e"
proof (cases "off = (0, 0)")
  case False
  then show ?thesis by (rule add_background_shadow_offset)
next
  case True
  obtain e where inner:
    "add_background L fg ''color'' (0, 0, 0, 0) None p True 30 (8, 8) = Inl e"
    using add_background_shadow_offset [of "(8, 8)" L fg "''color''" "(0, 0, 0, 0)" None p 30]
    by auto
  show ?thesis
    by (subst add_background.simps) (auto simp: inner split: sum.splits)
qed

lemma add_background_no_shadow_size:
  assumes "add_background L fg m c b p False so off = Inr out"
  shows "int (width out) = int (width fg) + 2 * p"
    and "int (height out) = int (height fg) + 2 * p"
  using assms background_canvas_size [of L fg m c b p]
  by (auto simp: add_background_no_shadow paste_mask_def split: sum.splits)

text \<open>
  Without a picture, the mode \<^verbatim>\<open>"image"\<close> takes the \<^verbatim>\<open>else\<close> branch: the call behaves as
  in the mode \<^verbatim>\<open>"color"\<close>, whatever the other arguments are.
\<close>

lemma background_canvas_fallback:
  "background_canvas L fg ''image'' c None p = background_canvas L fg ''color'' c None p"
  by (simp add: background_canvas_def)

lemma add_background_fallback:
  "add_background L fg ''image'' c None p se so off
     = add_background L fg ''color'' c None p se so off"
proof -
  have a: "add_background L fg ''image'' c None p se so off =
     (if se then
        (case shadow_block L fg p so off of
           Inl e \<Rightarrow> Inl e
         | Inr shadow_canvas \<Rightarrow>
        (case background_canvas L fg ''image'' c None p of
           Inl e \<Rightarrow> Inl e
         | Inr canvas \<Rightarrow>
        (case alpha_composite canvas shadow_canvas of
           Inl e \<Rightarrow> Inl e
         | Inr lower \<Rightarrow>
        (case add_background L fg ''color'' (0, 0, 0, 0) None p True 30 (8, 8) of
           Inl e \<Rightarrow> Inl e
         | Inr upper \<Rightarrow>
        (case alpha_composite lower upper of
           Inl e \<Rightarrow> Inl e
         | Inr canvas' \<Rightarrow> paste_mask canvas' fg (p, p) fg)))))
      else
        (case background_canvas L fg ''image'' c None p of
           Inl e \<Rightarrow> Inl e
         | Inr canvas \<Rightarrow> paste_mask canvas fg (p, p) fg))"
    by (rule add_background.simps)
  show ?thesis
    by (subst (2) add_background.simps) (simp only: a background_canvas_fallback)
qed

lemma apply_effects_frame:
  "undo_stack (snd (apply_effects L s)) = undo_stack s"
  "redo_stack (snd (apply_effects L s)) = redo_stack s"
  "original_image (snd (apply_effects L s)) = original_image s"
  by (simp_all add: apply_effects_def split: option.split sum.split)

text \<open>
  On the store, a call with a positive radius allocates the mask and the result after
  the objects that exist, and leaves every existing object, the input among them, as
  it is.
\<close>

lemma round_image_ref_allocates:
  assumes "0 < r" and "raster_at st a = Some im"
  shows "\<exists>m out. round_image L im r = Inr out
           \<and> round_image_ref L st a r
               = Some (Inr (Suc (length st)), st @ [Mask_obj m, Raster_obj out])"
  using assms
  by (simp add: round_image_ref_def round_image_def image_new_def putalpha_def
      rounded_rectangle_def Let_def list_update_append)

lemma round_image_ref_keeps_input:
  assumes "round_image_ref L st a r = Some (res, st')" and "b < length st"
  shows "st' ! b = st ! b"
  using assms
  by (auto simp: round_image_ref_def image_new_def putalpha_def Let_def nth_append
      split: if_splits option.splits)

text \<open>
  A state without a capture has an empty redo stack: so it is after \<^verbatim>\<open>_setup_state\<close>, and
  \<^verbatim>\<open>take_screenshot\<close> and \<^verbatim>\<open>apply_effects\<close> keep it so.
\<close>

lemma history_invariant:
  "original_image setup_state = None \<longrightarrow> redo_stack setup_state = []"
  "(original_image s = None \<longrightarrow> redo_stack s = []) \<Longrightarrow>
     original_image (snd (take_screenshot L pu s capture)) = None \<longrightarrow>
     redo_stack (snd (take_screenshot L pu s capture)) = []"
  "(original_image s = None \<longrightarrow> redo_stack s = []) \<Longrightarrow>
     original_image (snd (apply_effects L s)) = None \<longrightarrow>
     redo_stack (snd (apply_effects L s)) = []"
    apply (simp add: setup_state_def)
   apply (cases capture; simp add: take_screenshot_def apply_effects_frame Let_def)
  apply (simp add: apply_effects_frame)
  done

section \<open>The claims\<close>

text \<open>
  C1. The claim: the output of \<^verbatim>\<open>add_background\<close> has the size
  \<open>(fgW + 2p + max 0 dx, fgH + 2p + max 0 dy)\<close> with the shadow and \<open>(fgW + 2p, fgH + 2p)\<close>
  without. The code builds a shadow canvas that is larger than the background canvas by the
  shadow offset and composes the two, which Pillow refuses. For a foreground of 100 by 100
  pixels with the default arguments (padding 20, shadow on, offset \<open>(8, 8)\<close>) the background
  canvas is 140 by 140, the shadow canvas 148 by 148, and the call raises
  \<^verbatim>\<open>ValueError\<close> instead of returning a raster of 148 by 148.
\<close>

theorem add_background_default_shadow_raises:
  "map_sum id (\<lambda>r. (width r, height r))
     (background_canvas L (solid 100 100 (Pixel 200 200 200 255)) ''color''
        (255, 255, 255, 255) None 20)
     = Inr (140, 140)
   \<and> map_sum id (\<lambda>r. (width r, height r))
     (shadow_block L (solid 100 100 (Pixel 200 200 200 255)) 20 30 (8, 8)) = Inr (148, 148)
   \<and> add_background L (solid 100 100 (Pixel 200 200 200 255)) ''color'' (255, 255, 255, 255)
        None 20 True 30 (8, 8) = Inl ValueError"
proof -
  let ?fg = "solid 100 100 (Pixel 200 200 200 255)"
  obtain canvas where bk:
    "background_canvas L ?fg ''color'' (255, 255, 255, 255) None 20 = Inr canvas"
    and bsz: "width canvas = 140" "height canvas = 140"
    by (simp add: background_canvas_def new_canvas_def fits_def image_new_def Let_def)
  obtain sc where sc: "shadow_block L ?fg 20 30 (8, 8) = Inr sc"
    and ssz: "width sc = 148" "height sc = 148"
    by (simp add: shadow_block_def shadow_fill_def new_canvas_def fits_def image_new_def
        paste_def Let_def)
  have "add_background L ?fg ''color'' (255, 255, 255, 255) None 20 True 30 (8, 8)
          = Inl ValueError"
    by (rule add_background_shadow_ValueError [OF sc bk]) simp
  with bk bsz sc ssz show ?thesis by simp
qed

text \<open>
  C2, as amended. \<^verbatim>\<open>round_image\<close> returns a raster for every raster, one of zero area
  included, and every radius. \<^verbatim>\<open>add_background\<close> without the shadow returns a raster
  for every foreground, every 8-bit colour and every padding that is not negative and for
  which the canvas of the foreground's size plus twice the padding can be created (both
  sides fit a C \<^verbatim>\<open>int\<close> and the memory can be had, which is taken as given up to 4096 by
  4096 pixels); with a background picture in the mode \<^verbatim>\<open>"image"\<close>, for every foreground
  and picture of non-zero area. The code has no \<^verbatim>\<open>EmptyRaster\<close> error. What
  \<^verbatim>\<open>add_background\<close> does with the shadow is left out.
\<close>

theorem stages_return_rasters:
  assumes "0 \<le> p"
    and "fits L (int (width fg) + 2 * p) (int (height fg) + 2 * p)"
    and "rgba8 c"
    and "m = ''image'' \<and> b \<noteq> None \<longrightarrow>
           0 < width fg \<and> 0 < height fg \<and> 0 < width (the b) \<and> 0 < height (the b)"
  shows "(\<exists>out. round_image L im r = Inr out)
       \<and> (\<exists>out. add_background L fg m c b p False so off = Inr out)"
proof -
  from assms(4) have h: "m = ''image'' \<and> b \<noteq> None \<longrightarrow> 0 < width fg \<and> 0 < height fg"
    by simp
  obtain canvas where "background_canvas L fg m c b p = Inr canvas"
    using background_canvas_returns [OF assms(1,2) h] ..
  then have "\<exists>out. add_background L fg m c b p False so off = Inr out"
    by (simp add: add_background_no_shadow paste_mask_def)
  with round_image_returns [of L im r] show ?thesis by simp
qed

theorem stages_return_rasters_witness:
  "(0::int) \<le> 20
   \<and> fits sample_pillow (int (width (solid 2 2 (Pixel 9 9 9 255))) + 2 * 20)
        (int (height (solid 2 2 (Pixel 9 9 9 255))) + 2 * 20)
   \<and> rgba8 (255, 255, 255, 255)
   \<and> 0 < width (solid 2 2 (Pixel 9 9 9 255)) \<and> 0 < height (solid 2 2 (Pixel 9 9 9 255))
   \<and> 0 < width (solid 5 5 (Pixel 1 2 3 255)) \<and> 0 < height (solid 5 5 (Pixel 1 2 3 255))
   \<and> (\<exists>out. round_image sample_pillow (solid 0 0 (Pixel 0 0 0 0)) 20 = Inr out)
   \<and> (\<exists>out. add_background sample_pillow (solid 2 2 (Pixel 9 9 9 255)) ''image''
               (255, 255, 255, 255) (Some (solid 5 5 (Pixel 1 2 3 255))) 20 False 30 (8, 8)
             = Inr out)"
proof -
  have f: "fits sample_pillow (int (width (solid 2 2 (Pixel 9 9 9 255))) + 2 * 20)
        (int (height (solid 2 2 (Pixel 9 9 9 255))) + 2 * 20)"
    by (simp add: fits_def)
  have c: "rgba8 (255, 255, 255, 255)"
    by (simp add: rgba8_def)
  show ?thesis
    using stages_return_rasters [of 20 sample_pillow "solid 2 2 (Pixel 9 9 9 255)"
        "(255, 255, 255, 255)" "''image''" "Some (solid 5 5 (Pixel 1 2 3 255))"
        "solid 0 0 (Pixel 0 0 0 0)" 20 30 "(8, 8)"] f c
    by simp
qed

text \<open>
  The claim as stated fails: a raster of zero area is not rejected, \<^verbatim>\<open>round_image\<close> with
  the radius 0 returns it.
\<close>

theorem zero_area_raster_accepted:
  "width (solid 0 0 (Pixel 0 0 0 0)) = 0 \<and> height (solid 0 0 (Pixel 0 0 0 0)) = 0
   \<and> round_image sample_pillow (solid 0 0 (Pixel 0 0 0 0)) 0 = Inr (solid 0 0 (Pixel 0 0 0 0))"
  by (simp add: round_image_def)

text \<open>
  C3, as amended. For a positive radius \<^verbatim>\<open>round_image\<close> replaces the alpha channel by
  the mask: the alpha of every output pixel is the mask value there (255 where the rounded
  rectangle covers the pixel, 0 elsewhere) whatever the alpha of the input pixel was; the
  colour channels and the size stay.
\<close>

theorem round_image_replaces_alpha:
  assumes "0 < r"
  shows "\<exists>out. round_image L im r = Inr out \<and> width out = width im \<and> height out = height im
           \<and> (\<forall>x y. alpha (pixels out x y) = corner_mask L (width im) (height im) r x y
                  \<and> red (pixels out x y) = red (pixels im x y)
                  \<and> green (pixels out x y) = green (pixels im x y)
                  \<and> blue (pixels out x y) = blue (pixels im x y))"
  by (simp add: round_image_positive [OF assms] split: pixel.split)

theorem round_image_replaces_alpha_witness:
  "(0::int) < 1 \<and>
   (\<exists>out. round_image sample_pillow (solid 3 3 (Pixel 10 20 30 0)) 1 = Inr out
      \<and> width out = 3 \<and> height out = 3
      \<and> alpha (pixels out 1 1) = 255 \<and> alpha (pixels out 0 0) = 0
      \<and> red (pixels out 1 1) = 10)"
proof -
  have c: "corner_mask sample_pillow 3 3 1 1 1 = 255" "corner_mask sample_pillow 3 3 1 0 0 = 0"
    by code_simp+
  have "0 < (1::int)" by simp
  from round_image_replaces_alpha [OF this, of sample_pillow "solid 3 3 (Pixel 10 20 30 0)"]
  obtain out where o: "round_image sample_pillow (solid 3 3 (Pixel 10 20 30 0)) 1 = Inr out"
    and sz: "width out = 3" "height out = 3"
    and px: "\<And>x y. alpha (pixels out x y) = corner_mask sample_pillow 3 3 1 x y"
            "\<And>x y. red (pixels out x y) = 10"
    by auto
  show ?thesis
    using o sz px(1) [of 1 1] px(1) [of 0 0] px(2) [of 1 1] c by simp
qed

text \<open>
  The claim as stated fails: the centre pixel of a fully transparent raster of 3 by 3
  pixels has the alpha 0 and, after \<^verbatim>\<open>round_image\<close> with the radius 1, the alpha 255.
\<close>

theorem transparent_pixel_becomes_opaque:
  "alpha (pixels (solid 3 3 (Pixel 10 20 30 0)) 1 1) = 0 \<and>
   map_sum id (\<lambda>out. alpha (pixels out 1 1))
     (round_image sample_pillow (solid 3 3 (Pixel 10 20 30 0)) 1) = Inr 255"
  by code_simp

text \<open>
  C4. With the radius 0 \<^verbatim>\<open>round_image\<close> returns its argument: the same raster, and on
  the store the address it was given, with the store as it was (nothing is allocated).
\<close>

theorem round_image_zero_identity:
  "round_image L r 0 = Inr r \<and> round_image_ref L st a 0 = Some (Inr a, st)"
  by (simp add: round_image_def round_image_ref_def)

text \<open>
  C6, as amended. The shadow raster that \<^verbatim>\<open>add_background\<close> builds before the blur has
  the size of the foreground and is black with the alpha \<^verbatim>\<open>shadow_opacity\<close> itself (for
  an opacity of 0 to 100: not scaled to 0..255) at every pixel, whatever the alpha of
  the foreground is there.
\<close>

theorem shadow_fill_uniform:
  assumes "0 \<le> opacity" and "opacity \<le> 100"
  shows "shadow_fill fg opacity
           = Inr (solid (width fg) (height fg) (Pixel 0 0 0 (nat opacity)))"
  using assms by (auto simp: shadow_fill_def image_new_def solid_def ink_def clip8_def)

theorem shadow_fill_uniform_witness:
  "(0::int) \<le> 30 \<and> (30::int) \<le> 100 \<and>
   shadow_fill (solid 3 3 (Pixel 10 20 30 0)) 30 = Inr (solid 3 3 (Pixel 0 0 0 30))"
  using shadow_fill_uniform [of 30 "solid 3 3 (Pixel 10 20 30 0)"] by simp

text \<open>
  The claim as stated fails: under a fully transparent foreground pixel the shadow raster
  for the opacity 100 has the alpha 100, neither 0 nor 255.
\<close>

theorem shadow_under_transparent_pixel:
  "alpha (pixels (solid 3 3 (Pixel 10 20 30 0)) 0 0) = 0 \<and>
   map_sum id (\<lambda>shadow. pixels shadow 0 0) (shadow_fill (solid 3 3 (Pixel 10 20 30 0)) 100)
     = Inr (Pixel 0 0 0 100)"
  by (simp add: shadow_fill_def image_new_def ink_def clip8_def)

text \<open>
  C7. The claim: in the mode \<^verbatim>\<open>"image"\<close> without a picture \<^verbatim>\<open>add_background\<close> fills the
  canvas with the colour and returns, whatever the configuration. The fallback is there
  (\<open>add_background_fallback\<close>), but with the default configuration, which has the shadow
  on, the call raises \<^verbatim>\<open>ValueError\<close>.
\<close>

theorem add_background_image_mode_no_image_raises:
  "add_background L (solid 100 100 (Pixel 200 200 200 255)) ''image'' (255, 255, 255, 255)
        None 20 True 30 (8, 8) = Inl ValueError"
proof -
  let ?fg = "solid 100 100 (Pixel 200 200 200 255)"
  obtain canvas where bk:
    "background_canvas L ?fg ''image'' (255, 255, 255, 255) None 20 = Inr canvas"
    by (simp add: background_canvas_def new_canvas_def fits_def image_new_def Let_def)
  obtain sc where sc: "shadow_block L ?fg 20 30 (8, 8) = Inr sc"
    by (simp add: shadow_block_def shadow_fill_def new_canvas_def fits_def image_new_def
        paste_def Let_def)
  show ?thesis
    by (rule add_background_shadow_ValueError [OF sc bk]) simp
qed

text \<open>
  C8. A capture action clears the redo stack; when a capture exists, \<^verbatim>\<open>push_undo\<close> is
  applied to the state as it is before the capture is replaced, so the entry pushed holds
  the previous capture and configuration, and when the new capture fails the push has
  happened and the previous capture is still the active one. After the action the redo
  stack is empty (for an editor without a capture, whose redo stack the method does not
  touch: because it was empty before).
\<close>

theorem take_screenshot_history:
  assumes "original_image s = None \<longrightarrow> redo_stack s = []"
  shows "redo_stack (snd (take_screenshot L pu s capture)) = []
       \<and> (original_image s \<noteq> None \<longrightarrow>
            undo_stack (snd (take_screenshot L pu s capture)) = undo_stack (pu s)
          \<and> undo_stack (snd (take_screenshot L push_undo s capture))
              = (original_image s, render_config.truncate s) # undo_stack s
          \<and> take_screenshot L pu s None = (CaptureFailed, (pu s)\<lparr>redo_stack := []\<rparr>)
          \<and> original_image (snd (take_screenshot L push_undo s None)) = original_image s)
       \<and> original_image (snd (take_screenshot L pu s (Some img))) = Some img"
  using assms
  by (cases capture) (auto simp: take_screenshot_def apply_effects_frame push_undo_def Let_def)

theorem take_screenshot_history_witness:
  "original_image editor_with_capture = Some (solid 2 2 (Pixel 9 9 9 255))
   \<and> redo_stack editor_with_capture \<noteq> []
   \<and> redo_stack (snd (take_screenshot sample_pillow push_undo editor_with_capture
        (Some (solid 3 3 (Pixel 7 7 7 255))))) = []
   \<and> undo_stack (snd (take_screenshot sample_pillow push_undo editor_with_capture
        (Some (solid 3 3 (Pixel 7 7 7 255)))))
       = [(Some (solid 2 2 (Pixel 9 9 9 255)), render_config.truncate setup_state)]
   \<and> original_image (snd (take_screenshot sample_pillow push_undo editor_with_capture
        (Some (solid 3 3 (Pixel 7 7 7 255))))) = Some (solid 3 3 (Pixel 7 7 7 255))
   \<and> original_image (snd (take_screenshot sample_pillow push_undo editor_with_capture None))
       = Some (solid 2 2 (Pixel 9 9 9 255))"
proof -
  have e: "original_image editor_with_capture = Some (solid 2 2 (Pixel 9 9 9 255))"
    "undo_stack editor_with_capture = []"
    "redo_stack editor_with_capture \<noteq> []"
    "render_config.truncate editor_with_capture = render_config.truncate setup_state"
    by (simp_all add: editor_with_capture_def setup_state_def render_config.truncate_def)
  have h: "original_image editor_with_capture = None \<longrightarrow> redo_stack editor_with_capture = []"
    by (simp add: e)
  show ?thesis
    using take_screenshot_history [OF h, of sample_pillow push_undo
        "Some (solid 3 3 (Pixel 7 7 7 255))" "solid 3 3 (Pixel 7 7 7 255)"]
      take_screenshot_history [OF h, of sample_pillow push_undo None "solid 3 3 (Pixel 7 7 7 255)"]
    by (simp add: e push_undo_def)
qed

text \<open>
  C10. Without a capture \<^verbatim>\<open>apply_effects\<close> returns at once: the editor, its stored
  final image included, is as before, and the result does not depend on the imaging
  library, no stage of which is called.
\<close>

theorem apply_effects_without_capture:
  assumes "original_image s = None"
  shows "apply_effects L s = (Returned, s)"
  using assms by (simp add: apply_effects_def)

theorem apply_effects_without_capture_witness:
  "original_image setup_state = None
   \<and> apply_effects sample_pillow setup_state = (Returned, setup_state)
   \<and> final_image (snd (apply_effects sample_pillow setup_state)) = None"
  using apply_effects_without_capture [of setup_state sample_pillow]
  by (simp add: setup_state_def)

end
